theory Spec2Isabelle
  imports Main
begin

section \<open>The maintenance-mode gate of the web3.storage API\<close>

text \<open>
  An embedding of \<^verbatim>\<open>packages/api/src/maintenance.js\<close>. Modes are JavaScript strings,
  modelled as \<open>string\<close>. A thrown exception is the \<open>Inl\<close> branch of a sum; a handler is a
  function of the request, the environment, the execution context and the state of the
  world it may change, returning what it returned or threw together with the new state.
\<close>

subsection \<open>Thrown values\<close>

text \<open>
  Modelled from the spec: the classes \<^verbatim>\<open>HTTPError\<close> and \<^verbatim>\<open>MaintenanceError\<close> are imported
  from \<^verbatim>\<open>errors.js\<close>, which is not among the sources; the spec makes them two error kinds,
  both different from the plain \<^verbatim>\<open>Error\<close> of the language. The three constructors stand
  for \<^verbatim>\<open>new Error(msg)\<close>, \<^verbatim>\<open>new HTTPError(msg, status)\<close> and \<^verbatim>\<open>new MaintenanceError(msg)\<close>,
  each holding the arguments its constructor is called with in the module.
\<close>

datatype error =
    is_Error: Error string
  | is_HTTPError: HTTPError string nat
  | is_MaintenanceError: MaintenanceError string

text \<open>
  Modelled from the spec: the classes \<^verbatim>\<open>HTTPError\<close> and \<^verbatim>\<open>MaintenanceError\<close> are imported
  from \<^verbatim>\<open>errors.js\<close>, which is not among the sources. The spec gives the maintenance
  block the service-unavailable (503) class and the invalid-configuration error the status
  it is constructed with; the construction error is a plain \<^verbatim>\<open>Error\<close>, which has no
  status.
\<close>

fun status :: "error \<Rightarrow> nat option" where
  "status (Error msg) = None"
| "status (HTTPError msg st) = Some st"
| "status (MaintenanceError msg) = Some 503"

text \<open>
  Modelled from the spec: the message of a thrown value is the message its constructor
  was given (the classes of \<^verbatim>\<open>errors.js\<close> are not among the sources).
\<close>

fun message :: "error \<Rightarrow> string" where
  "message (Error msg) = msg"
| "message (HTTPError msg st) = msg"
| "message (MaintenanceError msg) = msg"

subsection \<open>The environment and handlers\<close>

text \<open>
  The environment object; only its \<^verbatim>\<open>MODE\<close> field is read here, every other field lives
  in the extension part of the record.
\<close>

record env =
  MODE :: string

type_synonym ('req, 'z, 'ctx, 's, 'resp) handler =
  "'req \<Rightarrow> 'z env_scheme \<Rightarrow> 'ctx \<Rightarrow> 's \<Rightarrow> (error + 'resp) \<times> 's"

subsection \<open>Library functions of JavaScript used by the module\<close>

text \<open>\<^verbatim>\<open>xs.join(sep)\<close>; the template literal formats the array \<^verbatim>\<open>modes\<close> with \<^verbatim>\<open>join(',')\<close>.\<close>

fun join :: "string list \<Rightarrow> string \<Rightarrow> string" where
  "join [] sep = []"
| "join [x] sep = x"
| "join (x # y # ys) sep = x @ sep @ join (y # ys) sep"

text \<open>\<^verbatim>\<open>m.split('')\<close>: one string of length one for each character.\<close>

definition split_chars :: "string \<Rightarrow> string list" where
  "split_chars m = map (\<lambda>c. [c]) m"

text \<open>\<^verbatim>\<open>xs[i]\<close>, with \<open>None\<close> for \<^verbatim>\<open>undefined\<close> out of range.\<close>

definition at_index :: "'a list \<Rightarrow> nat \<Rightarrow> 'a option" where
  "at_index xs i = (if i < length xs then Some (xs ! i) else None)"

text \<open>
  \<^verbatim>\<open>xs.every((x, i) => p(x, i))\<close>: the elements are visited from index \<open>i\<close> upwards and
  the visit stops at the first one that fails.
\<close>

fun every_from :: "nat \<Rightarrow> ('a \<Rightarrow> nat \<Rightarrow> bool) \<Rightarrow> 'a list \<Rightarrow> bool" where
  "every_from i p [] = True"
| "every_from i p (x # xs) = (if p x i then every_from (Suc i) p xs else False)"

definition every :: "('a \<Rightarrow> nat \<Rightarrow> bool) \<Rightarrow> 'a list \<Rightarrow> bool" where
  "every p xs = every_from 0 p xs"

subsection \<open>The module\<close>

definition READ_WRITE :: string where
  "READ_WRITE = ''rw''"

definition READ_ONLY :: string where
  "READ_ONLY = ''r-''"

definition NO_READ_OR_WRITE :: string where
  "NO_READ_OR_WRITE = ''--''"

definition modes :: "string list" where
  "modes = [NO_READ_OR_WRITE, READ_ONLY, READ_WRITE]"

definition DEFAULT_MODE :: string where
  "DEFAULT_MODE = READ_WRITE"

definition modeBits :: "string \<Rightarrow> error + string list" where
  "modeBits m =
     (if \<not> (m \<in> set modes) then
        Inl (HTTPError
               (''invalid maintenance mode, wanted one of '' @ join modes '','' @
                '' but got '' @ [CHR 0x22] @ m @ [CHR 0x22])
               503)
      else Inr (split_chars m))"

definition maintenanceHandler :: "unit \<Rightarrow> error + 'resp" where
  "maintenanceHandler u =
     (let url = ''https://status.web3.storage'' in
      Inl (MaintenanceError (''API undergoing maintenance, check '' @ url @ '' for more info'')))"

text \<open>
  The inner function \<^verbatim>\<open>enabled\<close> of the returned handler; it closes over the requirement
  \<open>mode\<close> and over the \<open>env\<close> of the call. The current mode is decomposed first, the
  requirement second, and either decomposition may throw.
\<close>

definition enabled :: "string \<Rightarrow> 'z env_scheme \<Rightarrow> error + bool" where
  "enabled mode env =
     (let currentMode = MODE env in
      case modeBits currentMode of
        Inl e \<Rightarrow> Inl e
      | Inr currentModeBits \<Rightarrow>
          (case modeBits mode of
             Inl e \<Rightarrow> Inl e
           | Inr bits \<Rightarrow>
               Inr (every (\<lambda>bit i. if bit = ''-'' then True
                                    else at_index currentModeBits i = Some bit) bits)))"

text \<open>
  \<^verbatim>\<open>withMode(handler, mode)\<close>. The state of the world is threaded through the construction
  as well, so that what wrapping does to it is part of the result.
\<close>

definition withMode ::
  "('req, 'z, 'ctx, 's, 'resp) handler \<Rightarrow> string \<Rightarrow> 's \<Rightarrow>
     (error + ('req, 'z, 'ctx, 's, 'resp) handler) \<times> 's" where
  "withMode handler mode s0 =
     (if mode = NO_READ_OR_WRITE then (Inl (Error ''invalid mode''), s0)
      else
        (Inr (\<lambda>request env ctx s.
           case enabled mode env of
             Inl e \<Rightarrow> (Inl e, s)
           | Inr en \<Rightarrow>
               if en then handler request env ctx s
               else (maintenanceHandler (), s)),
         s0))"

text \<open>
  A test handler for the concrete runs below: it answers with the arguments it was
  called with and counts its calls in the state.
\<close>

abbreviation spy :: "(string, unit, string, nat, string \<times> env \<times> string) handler" where
  "spy \<equiv> (\<lambda>request env ctx n. (Inr (request, env, ctx), Suc n))"

section \<open>Properties\<close>

subsection \<open>Auxiliary facts\<close>

lemmas mode_defs = modes_def NO_READ_OR_WRITE_def READ_ONLY_def READ_WRITE_def

lemma set_modes: "set modes = {''--'', ''r-'', ''rw''}"
  by (simp add: mode_defs)

lemma join_modes: "join modes '','' = ''--,r-,rw''"
  by (simp add: mode_defs)

lemma modeBits_canonical:
  "modeBits ''--'' = Inr [''-'', ''-'']"
  "modeBits ''r-'' = Inr [''r'', ''-'']"
  "modeBits ''rw'' = Inr [''r'', ''w'']"
  by (simp_all add: modeBits_def set_modes split_chars_def)

lemma modeBits_noncanonical:
  assumes "m \<notin> {''--'', ''r-'', ''rw''}"
  shows "modeBits m =
    Inl (HTTPError (''invalid maintenance mode, wanted one of --,r-,rw but got '' @
                    [CHR 0x22] @ m @ [CHR 0x22]) 503)"
  using assms by (simp add: modeBits_def set_modes join_modes)

lemma every_two: "every p [a, b] = (p a 0 \<and> p b 1)"
  by (simp add: every_def)

lemma enabled_canonical:
  assumes "req \<in> {''r-'', ''rw''}" and "MODE env \<in> {''--'', ''r-'', ''rw''}"
  shows "enabled req env =
    Inr ((req ! 0 = CHR ''-'' \<or> MODE env ! 0 = CHR ''r'') \<and>
         (req ! 1 = CHR ''-'' \<or> MODE env ! 1 = CHR ''w''))"
proof -
  from assms consider
      "req = ''r-''" "MODE env = ''--''" | "req = ''r-''" "MODE env = ''r-''"
    | "req = ''r-''" "MODE env = ''rw''" | "req = ''rw''" "MODE env = ''--''"
    | "req = ''rw''" "MODE env = ''r-''" | "req = ''rw''" "MODE env = ''rw''"
    by auto
  then show ?thesis
    by cases (simp_all add: enabled_def modeBits_canonical every_two at_index_def)
qed

lemma enabled_bad_mode:
  assumes "MODE env \<notin> {''--'', ''r-'', ''rw''}"
  shows "enabled req env =
    Inl (HTTPError (''invalid maintenance mode, wanted one of --,r-,rw but got '' @
                    [CHR 0x22] @ MODE env @ [CHR 0x22]) 503)"
  by (simp add: enabled_def modeBits_noncanonical[OF assms])

lemma enabled_bad_requirement:
  assumes "MODE env \<in> {''--'', ''r-'', ''rw''}" and "req \<notin> {''--'', ''r-'', ''rw''}"
  shows "enabled req env =
    Inl (HTTPError (''invalid maintenance mode, wanted one of --,r-,rw but got '' @
                    [CHR 0x22] @ req @ [CHR 0x22]) 503)"
proof -
  from assms(1) obtain bits where "modeBits (MODE env) = Inr bits"
    using modeBits_canonical by auto
  then show ?thesis
    by (simp add: enabled_def modeBits_noncanonical[OF assms(2)])
qed

lemma maintenanceHandler_throws:
  "maintenanceHandler () =
     Inl (MaintenanceError
       ''API undergoing maintenance, check https://status.web3.storage for more info'')"
  by (simp add: maintenanceHandler_def)

lemma modeBits_throws_HTTPError:
  assumes "modeBits m = Inl e"
  shows "is_HTTPError e"
  using assms by (auto simp: modeBits_def split: if_splits)

lemma enabled_outcomes:
  "(\<exists>b. enabled mode env = Inr b) \<or> (\<exists>e. is_HTTPError e \<and> enabled mode env = Inl e)"
proof (cases "modeBits (MODE env)")
  case (Inl e)
  then show ?thesis
    using modeBits_throws_HTTPError[OF Inl] by (simp add: enabled_def)
next
  case cur: (Inr currentModeBits)
  show ?thesis
  proof (cases "modeBits mode")
    case (Inl e)
    then show ?thesis
      using cur modeBits_throws_HTTPError[OF Inl] by (simp add: enabled_def)
  next
    case (Inr bits)
    then show ?thesis
      using cur by (simp add: enabled_def)
  qed
qed

lemma enabled_reads_MODE: "enabled mode env = enabled mode \<lparr>MODE = MODE env\<rparr>"
  by (simp add: enabled_def)

lemma withMode_wraps:
  assumes "mode \<noteq> ''--''"
  shows "withMode handler mode s0 =
    (Inr (\<lambda>request env ctx s.
       case enabled mode env of
         Inl e \<Rightarrow> (Inl e, s)
       | Inr en \<Rightarrow> if en then handler request env ctx s else (maintenanceHandler (), s)),
     s0)"
  using assms by (simp add: withMode_def NO_READ_OR_WRITE_def)

subsection \<open>The decision table\<close>

text \<open>
  Claim C1. For a requirement \<open>req\<close> among \<open>r-\<close>, \<open>rw\<close> and a runtime mode \<open>m\<close> among
  \<open>--\<close>, \<open>r-\<close>, \<open>rw\<close>, wrapping succeeds and the returned handler lets a request through
  exactly when (the read bit of \<open>req\<close> is \<open>-\<close> or the read bit of \<open>m\<close> is \<open>r\<close>) and (the
  write bit of \<open>req\<close> is \<open>-\<close> or the write bit of \<open>m\<close> is \<open>w\<close>): then the call is the call
  of the wrapped handler, and otherwise the maintenance error is thrown and the state is
  the one before the call, whatever the wrapped handler would have done to it.
\<close>

theorem withMode_permits_iff:
  assumes "req \<in> {''r-'', ''rw''}" and "m \<in> {''--'', ''r-'', ''rw''}"
  shows "\<exists>w. withMode handler req s0 = (Inr w, s0) \<and>
    (\<forall>request env ctx s. MODE env = m \<longrightarrow>
       (let permitted = (req ! 0 = CHR ''-'' \<or> m ! 0 = CHR ''r'') \<and>
                        (req ! 1 = CHR ''-'' \<or> m ! 1 = CHR ''w'')
        in enabled req env = Inr permitted \<and>
           w request env ctx s =
             (if permitted then handler request env ctx s
              else (Inl (MaintenanceError
                ''API undergoing maintenance, check https://status.web3.storage for more info''),
                    s))))"
proof -
  from assms(1) have ne: "req \<noteq> ''--''" by auto
  have "enabled req env =
      Inr ((req ! 0 = CHR ''-'' \<or> m ! 0 = CHR ''r'') \<and> (req ! 1 = CHR ''-'' \<or> m ! 1 = CHR ''w''))"
    if "MODE env = m" for env :: "'b env_scheme"
    using enabled_canonical[of req env] assms that by simp
  then show ?thesis
    by (simp add: withMode_wraps[OF ne] maintenanceHandler_throws Let_def)
qed

text \<open>
  The six rows of the table, run with the test handler from a call count of \<open>0\<close>:
  \<open>(r-, --)\<close> blocked, \<open>(r-, r-)\<close> allowed, \<open>(r-, rw)\<close> allowed, \<open>(rw, --)\<close> blocked,
  \<open>(rw, r-)\<close> blocked, \<open>(rw, rw)\<close> allowed.
\<close>

theorem withMode_permits_iff_witness:
  "(\<exists>w. withMode spy ''r-'' 0 = (Inr w, 0) \<and>
      w ''req'' \<lparr>MODE = ''--''\<rparr> ''ctx'' 0 =
        (Inl (MaintenanceError
          ''API undergoing maintenance, check https://status.web3.storage for more info''), 0)) \<and>
   (\<exists>w. withMode spy ''r-'' 0 = (Inr w, 0) \<and>
      w ''req'' \<lparr>MODE = ''r-''\<rparr> ''ctx'' 0 = (Inr (''req'', \<lparr>MODE = ''r-''\<rparr>, ''ctx''), 1)) \<and>
   (\<exists>w. withMode spy ''r-'' 0 = (Inr w, 0) \<and>
      w ''req'' \<lparr>MODE = ''rw''\<rparr> ''ctx'' 0 = (Inr (''req'', \<lparr>MODE = ''rw''\<rparr>, ''ctx''), 1)) \<and>
   (\<exists>w. withMode spy ''rw'' 0 = (Inr w, 0) \<and>
      w ''req'' \<lparr>MODE = ''--''\<rparr> ''ctx'' 0 =
        (Inl (MaintenanceError
          ''API undergoing maintenance, check https://status.web3.storage for more info''), 0)) \<and>
   (\<exists>w. withMode spy ''rw'' 0 = (Inr w, 0) \<and>
      w ''req'' \<lparr>MODE = ''r-''\<rparr> ''ctx'' 0 =
        (Inl (MaintenanceError
          ''API undergoing maintenance, check https://status.web3.storage for more info''), 0)) \<and>
   (\<exists>w. withMode spy ''rw'' 0 = (Inr w, 0) \<and>
      w ''req'' \<lparr>MODE = ''rw''\<rparr> ''ctx'' 0 = (Inr (''req'', \<lparr>MODE = ''rw''\<rparr>, ''ctx''), 1))"
proof (intro conjI)
  show "\<exists>w. withMode spy ''r-'' 0 = (Inr w, 0) \<and>
      w ''req'' \<lparr>MODE = ''--''\<rparr> ''ctx'' 0 =
        (Inl (MaintenanceError
          ''API undergoing maintenance, check https://status.web3.storage for more info''), 0)"
    using withMode_permits_iff[of "''r-''" "''--''" spy 0] by (auto simp: Let_def)
  show "\<exists>w. withMode spy ''r-'' 0 = (Inr w, 0) \<and>
      w ''req'' \<lparr>MODE = ''r-''\<rparr> ''ctx'' 0 = (Inr (''req'', \<lparr>MODE = ''r-''\<rparr>, ''ctx''), 1)"
    using withMode_permits_iff[of "''r-''" "''r-''" spy 0] by (auto simp: Let_def)
  show "\<exists>w. withMode spy ''r-'' 0 = (Inr w, 0) \<and>
      w ''req'' \<lparr>MODE = ''rw''\<rparr> ''ctx'' 0 = (Inr (''req'', \<lparr>MODE = ''rw''\<rparr>, ''ctx''), 1)"
    using withMode_permits_iff[of "''r-''" "''rw''" spy 0] by (auto simp: Let_def)
  show "\<exists>w. withMode spy ''rw'' 0 = (Inr w, 0) \<and>
      w ''req'' \<lparr>MODE = ''--''\<rparr> ''ctx'' 0 =
        (Inl (MaintenanceError
          ''API undergoing maintenance, check https://status.web3.storage for more info''), 0)"
    using withMode_permits_iff[of "''rw''" "''--''" spy 0] by (auto simp: Let_def)
  show "\<exists>w. withMode spy ''rw'' 0 = (Inr w, 0) \<and>
      w ''req'' \<lparr>MODE = ''r-''\<rparr> ''ctx'' 0 =
        (Inl (MaintenanceError
          ''API undergoing maintenance, check https://status.web3.storage for more info''), 0)"
    using withMode_permits_iff[of "''rw''" "''r-''" spy 0] by (auto simp: Let_def)
  show "\<exists>w. withMode spy ''rw'' 0 = (Inr w, 0) \<and>
      w ''req'' \<lparr>MODE = ''rw''\<rparr> ''ctx'' 0 = (Inr (''req'', \<lparr>MODE = ''rw''\<rparr>, ''ctx''), 1)"
    using withMode_permits_iff[of "''rw''" "''rw''" spy 0] by (auto simp: Let_def)
qed

subsection \<open>Wrapping with the requirement \<open>--\<close>\<close>

text \<open>
  Claim C2. For every handler, \<^verbatim>\<open>withMode(handler, '--')\<close> throws the construction error
  \<^verbatim>\<open>Error('invalid mode')\<close> at wrap time: no handler is returned, so no request can reach
  one, and the state of the world is the one before the call.
\<close>

theorem withMode_no_read_or_write_throws:
  "withMode handler ''--'' s0 = (Inl (Error ''invalid mode''), s0)"
  by (simp add: withMode_def NO_READ_OR_WRITE_def)

subsection \<open>An invalid runtime mode\<close>

text \<open>
  Claim C3. For a requirement other than \<open>--\<close> (so for \<open>r-\<close> and \<open>rw\<close>) and a runtime mode
  \<open>m\<close> outside \<open>--\<close>, \<open>r-\<close>, \<open>rw\<close>, a call of the wrapped handler throws the \<^verbatim>\<open>HTTPError\<close> of
  status 503 whose message names the valid values and \<open>m\<close>; the wrapped handler is not called
  (the state is unchanged). The error is thrown by the decomposition of the runtime mode,
  the first step of \<^verbatim>\<open>enabled\<close>, before the requirement is looked at: the result is the
  same for every requirement.
\<close>

theorem invalid_runtime_mode_throws:
  assumes "req \<noteq> ''--''" and "m \<notin> {''--'', ''r-'', ''rw''}"
  shows "\<exists>w. withMode handler req s0 = (Inr w, s0) \<and>
    (\<forall>request env ctx s. MODE env = m \<longrightarrow>
       modeBits (MODE env) =
         Inl (HTTPError (''invalid maintenance mode, wanted one of --,r-,rw but got '' @
                         [CHR 0x22] @ m @ [CHR 0x22]) 503) \<and>
       w request env ctx s =
         (Inl (HTTPError (''invalid maintenance mode, wanted one of --,r-,rw but got '' @
                          [CHR 0x22] @ m @ [CHR 0x22]) 503), s)) \<and>
    status (HTTPError (''invalid maintenance mode, wanted one of --,r-,rw but got '' @
                       [CHR 0x22] @ m @ [CHR 0x22]) 503) = Some 503"
proof -
  have "enabled req env =
      Inl (HTTPError (''invalid maintenance mode, wanted one of --,r-,rw but got '' @
                      [CHR 0x22] @ m @ [CHR 0x22]) 503)"
    if "MODE env = m" for env :: "'b env_scheme"
    using enabled_bad_mode[of env req] assms(2) that by simp
  then show ?thesis
    using modeBits_noncanonical[OF assms(2)] by (simp add: withMode_wraps[OF assms(1)])
qed

theorem invalid_runtime_mode_throws_witness:
  "(\<exists>w. withMode spy ''r-'' 0 = (Inr w, 0) \<and>
      w ''req'' \<lparr>MODE = ''xx''\<rparr> ''ctx'' 0 =
        (Inl (HTTPError (''invalid maintenance mode, wanted one of --,r-,rw but got '' @
                         [CHR 0x22] @ ''xx'' @ [CHR 0x22]) 503), 0)) \<and>
   (\<exists>w. withMode spy ''rw'' 0 = (Inr w, 0) \<and>
      w ''req'' \<lparr>MODE = ''xx''\<rparr> ''ctx'' 0 =
        (Inl (HTTPError (''invalid maintenance mode, wanted one of --,r-,rw but got '' @
                         [CHR 0x22] @ ''xx'' @ [CHR 0x22]) 503), 0))"
proof (intro conjI)
  show "\<exists>w. withMode spy ''r-'' 0 = (Inr w, 0) \<and>
      w ''req'' \<lparr>MODE = ''xx''\<rparr> ''ctx'' 0 =
        (Inl (HTTPError (''invalid maintenance mode, wanted one of --,r-,rw but got '' @
                         [CHR 0x22] @ ''xx'' @ [CHR 0x22]) 503), 0)"
    using invalid_runtime_mode_throws[of "''r-''" "''xx''" spy 0] by auto
  show "\<exists>w. withMode spy ''rw'' 0 = (Inr w, 0) \<and>
      w ''req'' \<lparr>MODE = ''xx''\<rparr> ''ctx'' 0 =
        (Inl (HTTPError (''invalid maintenance mode, wanted one of --,r-,rw but got '' @
                         [CHR 0x22] @ ''xx'' @ [CHR 0x22]) 503), 0)"
    using invalid_runtime_mode_throws[of "''rw''" "''xx''" spy 0] by auto
qed

subsection \<open>The maintenance block\<close>

text \<open>
  Claim C4. For a requirement among \<open>r-\<close>, \<open>rw\<close> and a runtime mode among \<open>--\<close>, \<open>r-\<close>, \<open>rw\<close>
  that does not satisfy it, a call of the wrapped handler does not call the handler (the
  state is the one before the call, for every handler) and throws the
  \<^verbatim>\<open>MaintenanceError\<close> whose message is exactly
  \<open>API undergoing maintenance, check https://status.web3.storage for more info\<close>, of
  status 503.
\<close>

theorem unsatisfied_requirement_blocks:
  assumes "req \<in> {''r-'', ''rw''}" and "m \<in> {''--'', ''r-'', ''rw''}"
    and "\<not> ((req ! 0 = CHR ''-'' \<or> m ! 0 = CHR ''r'') \<and> (req ! 1 = CHR ''-'' \<or> m ! 1 = CHR ''w''))"
  shows "\<exists>w e. withMode handler req s0 = (Inr w, s0) \<and>
    (\<forall>request env ctx s. MODE env = m \<longrightarrow> w request env ctx s = (Inl e, s)) \<and>
    e = MaintenanceError
          ''API undergoing maintenance, check https://status.web3.storage for more info'' \<and>
    message e = ''API undergoing maintenance, check https://status.web3.storage for more info'' \<and>
    status e = Some 503"
proof -
  from assms(1) have ne: "req \<noteq> ''--''" by auto
  have "enabled req env = Inr False" if "MODE env = m" for env :: "'b env_scheme"
    using enabled_canonical[of req env] assms that by simp
  then show ?thesis
    by (simp add: withMode_wraps[OF ne] maintenanceHandler_throws)
qed

theorem unsatisfied_requirement_blocks_witness:
  "\<exists>w e. withMode spy ''rw'' 0 = (Inr w, 0) \<and>
     w ''req'' \<lparr>MODE = ''r-''\<rparr> ''ctx'' 0 = (Inl e, 0) \<and>
     e = MaintenanceError
           ''API undergoing maintenance, check https://status.web3.storage for more info'' \<and>
     status e = Some 503"
  using unsatisfied_requirement_blocks[of "''rw''" "''r-''" spy 0] by auto

subsection \<open>Pass-through\<close>

text \<open>
  Claim C5. For a requirement among \<open>r-\<close>, \<open>rw\<close> satisfied by the runtime mode, a call of
  the wrapped handler is one call of the handler with the same request, environment and
  context, in the same state: it returns (or throws) what the handler does and leaves the
  state the handler leaves.
\<close>

theorem permitted_request_passes_through:
  assumes "req \<in> {''r-'', ''rw''}" and "m \<in> {''--'', ''r-'', ''rw''}"
    and "(req ! 0 = CHR ''-'' \<or> m ! 0 = CHR ''r'') \<and> (req ! 1 = CHR ''-'' \<or> m ! 1 = CHR ''w'')"
  shows "\<exists>w. withMode handler req s0 = (Inr w, s0) \<and>
    (\<forall>request env ctx s. MODE env = m \<longrightarrow> w request env ctx s = handler request env ctx s)"
proof -
  from assms(1) have ne: "req \<noteq> ''--''" by auto
  have "enabled req env = Inr True" if "MODE env = m" for env :: "'b env_scheme"
    using enabled_canonical[of req env] assms that by simp
  then show ?thesis
    by (simp add: withMode_wraps[OF ne])
qed

text \<open>
  With the test handler: the answer holds the three arguments of the call, and the call
  count goes from \<open>0\<close> to \<open>1\<close>.
\<close>

theorem permitted_request_passes_through_witness:
  "\<exists>w. withMode spy ''r-'' 0 = (Inr w, 0) \<and>
     w ''marker'' \<lparr>MODE = ''rw''\<rparr> ''ctx'' 0 = (Inr (''marker'', \<lparr>MODE = ''rw''\<rparr>, ''ctx''), 1)"
  using permitted_request_passes_through[of "''r-''" "''rw''" spy 0] by auto

subsection \<open>The three failures\<close>

text \<open>
  Claim C6. The value thrown by wrapping with \<open>--\<close> is a plain \<^verbatim>\<open>Error\<close>, the value thrown
  by a call under a runtime mode \<open>bad\<close> outside the three valid ones is an \<^verbatim>\<open>HTTPError\<close>,
  and the value thrown by a call under a valid runtime mode \<open>low\<close> that does not satisfy
  the requirement is a \<^verbatim>\<open>MaintenanceError\<close>; the three are pairwise different, the
  maintenance error is not an \<^verbatim>\<open>HTTPError\<close>, and each is the outcome of the call that
  raised it: nothing in the module catches it.
\<close>

theorem failure_kinds_distinct:
  assumes "req \<in> {''r-'', ''rw''}" and "bad \<notin> {''--'', ''r-'', ''rw''}"
    and "low \<in> {''--'', ''r-'', ''rw''}"
    and "\<not> ((req ! 0 = CHR ''-'' \<or> low ! 0 = CHR ''r'') \<and>
             (req ! 1 = CHR ''-'' \<or> low ! 1 = CHR ''w''))"
  shows "\<exists>e1 e2 e3 w.
    withMode handler ''--'' s0 = (Inl e1, s0) \<and>
    withMode handler req s0 = (Inr w, s0) \<and>
    (\<forall>request env ctx s. MODE env = bad \<longrightarrow> w request env ctx s = (Inl e2, s)) \<and>
    (\<forall>request env ctx s. MODE env = low \<longrightarrow> w request env ctx s = (Inl e3, s)) \<and>
    is_Error e1 \<and> is_HTTPError e2 \<and> is_MaintenanceError e3 \<and>
    \<not> is_HTTPError e1 \<and> \<not> is_MaintenanceError e1 \<and>
    \<not> is_Error e2 \<and> \<not> is_MaintenanceError e2 \<and>
    \<not> is_Error e3 \<and> \<not> is_HTTPError e3 \<and>
    e1 \<noteq> e2 \<and> e1 \<noteq> e3 \<and> e2 \<noteq> e3"
proof -
  from assms(1) have ne: "req \<noteq> ''--''" by auto
  have bad: "enabled req env =
      Inl (HTTPError (''invalid maintenance mode, wanted one of --,r-,rw but got '' @
                      [CHR 0x22] @ bad @ [CHR 0x22]) 503)"
    if "MODE env = bad" for env :: "'b env_scheme"
    using enabled_bad_mode[of env req] assms(2) that by simp
  have low: "enabled req env = Inr False" if "MODE env = low" for env :: "'b env_scheme"
    using enabled_canonical[of req env] assms(1,3,4) that by simp
  have e1: "withMode handler ''--'' s0 = (Inl (Error ''invalid mode''), s0)"
    by (simp add: withMode_def NO_READ_OR_WRITE_def)
  show ?thesis
    apply (rule exI[of _ "Error ''invalid mode''"])
    apply (rule exI[of _ "HTTPError (''invalid maintenance mode, wanted one of --,r-,rw but got '' @
                      [CHR 0x22] @ bad @ [CHR 0x22]) 503"])
    apply (rule exI[of _ "MaintenanceError
      ''API undergoing maintenance, check https://status.web3.storage for more info''"])
    apply (simp add: e1 withMode_wraps[OF ne] bad low maintenanceHandler_throws)
    done
qed

theorem failure_kinds_distinct_witness:
  "\<exists>e1 e2 e3 w.
    withMode spy ''--'' 0 = (Inl e1, 0) \<and>
    withMode spy ''rw'' 0 = (Inr w, 0) \<and>
    w ''req'' \<lparr>MODE = ''xx''\<rparr> ''ctx'' 0 = (Inl e2, 0) \<and>
    w ''req'' \<lparr>MODE = ''r-''\<rparr> ''ctx'' 0 = (Inl e3, 0) \<and>
    is_Error e1 \<and> is_HTTPError e2 \<and> is_MaintenanceError e3 \<and>
    e1 \<noteq> e2 \<and> e1 \<noteq> e3 \<and> e2 \<noteq> e3"
proof -
  from failure_kinds_distinct[of "''rw''" "''xx''" "''r-''" spy 0]
  obtain e1 e2 e3 w where
    "withMode spy ''--'' 0 = (Inl e1, 0)" "withMode spy ''rw'' 0 = (Inr w, 0)"
    "\<forall>request env ctx s. MODE env = ''xx'' \<longrightarrow> w request env ctx s = (Inl e2, s)"
    "\<forall>request env ctx s. MODE env = ''r-'' \<longrightarrow> w request env ctx s = (Inl e3, s)"
    "is_Error e1" "is_HTTPError e2" "is_MaintenanceError e3"
    "e1 \<noteq> e2" "e1 \<noteq> e3" "e2 \<noteq> e3"
    by auto
  then show ?thesis by (intro exI[of _ e1] exI[of _ e2] exI[of _ e3] exI[of _ w]) simp
qed

subsection \<open>The decision depends on the requirement and the runtime mode only\<close>

text \<open>
  Claim C7. For a requirement other than \<open>--\<close>, two calls of the wrapped handler under the
  same runtime mode have the same outcome, whatever the two requests, contexts, other
  fields of the environment and states of the world (so also when the second call starts
  in the state the first one left): both are the call of the handler, or both throw the
  maintenance error, or both throw the same configuration error, and a call that throws
  leaves its state as it found it.
\<close>

theorem decision_deterministic:
  assumes "mode \<noteq> ''--''" and "MODE env1 = MODE env2"
  shows "\<exists>w. withMode handler mode s0 = (Inr w, s0) \<and>
    ((enabled mode env1 = Inr True \<and> enabled mode env2 = Inr True \<and>
      w request1 env1 ctx1 s1 = handler request1 env1 ctx1 s1 \<and>
      w request2 env2 ctx2 s2 = handler request2 env2 ctx2 s2) \<or>
     (enabled mode env1 = Inr False \<and> enabled mode env2 = Inr False \<and>
      w request1 env1 ctx1 s1 = (maintenanceHandler (), s1) \<and>
      w request2 env2 ctx2 s2 = (maintenanceHandler (), s2)) \<or>
     (\<exists>e. is_HTTPError e \<and> enabled mode env1 = Inl e \<and> enabled mode env2 = Inl e \<and>
      w request1 env1 ctx1 s1 = (Inl e, s1) \<and>
      w request2 env2 ctx2 s2 = (Inl e, s2)))"
proof -
  have same: "enabled mode env1 = enabled mode env2"
    using assms(2) by (simp add: enabled_def)
  from enabled_outcomes[of mode env2] show ?thesis
  proof
    assume "\<exists>b. enabled mode env2 = Inr b"
    then obtain b where "enabled mode env2 = Inr b" ..
    with same show ?thesis
      by (cases b) (simp_all add: withMode_wraps[OF assms(1)])
  next
    assume "\<exists>e. is_HTTPError e \<and> enabled mode env2 = Inl e"
    then obtain e where "is_HTTPError e" "enabled mode env2 = Inl e" by blast
    with same show ?thesis
      by (simp add: withMode_wraps[OF assms(1)])
  qed
qed

text \<open>
  With the test handler under \<open>rw\<close>: two calls in a row in mode \<open>r-\<close> are both blocked and
  two calls in a row in mode \<open>rw\<close> both reach the handler, the second in the state the
  first one left.
\<close>

theorem decision_deterministic_witness:
  "\<exists>w. withMode spy ''rw'' 0 = (Inr w, 0) \<and>
     w ''a'' \<lparr>MODE = ''rw''\<rparr> ''ctx'' 0 = (Inr (''a'', \<lparr>MODE = ''rw''\<rparr>, ''ctx''), 1) \<and>
     w ''b'' \<lparr>MODE = ''rw''\<rparr> ''ctx'' 1 = (Inr (''b'', \<lparr>MODE = ''rw''\<rparr>, ''ctx''), 2)"
proof -
  have en: "enabled ''rw'' \<lparr>MODE = ''rw''\<rparr> = Inr True"
    by (simp add: enabled_canonical)
  from decision_deterministic[of "''rw''" "\<lparr>MODE = ''rw''\<rparr>" "\<lparr>MODE = ''rw''\<rparr>" spy 0
      "''a''" "''ctx''" 0 "''b''" "''ctx''" 1] en
  show ?thesis by auto
qed

subsection \<open>The runtime mode is read at each call\<close>

text \<open>
  Claim C8. For a requirement other than \<open>--\<close>, the wrapped handler is the same whatever
  the state of the world at wrap time, and the outcome of each of its calls is decided by
  the \<^verbatim>\<open>MODE\<close> field of the environment passed to that call and by nothing else of the
  environment: it is the outcome under the environment that holds that \<^verbatim>\<open>MODE\<close> alone.
\<close>

theorem mode_read_per_call:
  assumes "mode \<noteq> ''--''"
  shows "\<exists>w. withMode handler mode s0 = (Inr w, s0) \<and>
    (\<forall>s0'. withMode handler mode s0' = (Inr w, s0')) \<and>
    (\<forall>request env ctx s.
       w request env ctx s =
         (case enabled mode \<lparr>MODE = MODE env\<rparr> of
            Inl e \<Rightarrow> (Inl e, s)
          | Inr en \<Rightarrow> if en then handler request env ctx s else (maintenanceHandler (), s)))"
proof -
  have "enabled mode \<lparr>MODE = MODE env\<rparr> = enabled mode env" for env :: "'b env_scheme"
    using enabled_reads_MODE[of mode env] by simp
  then show ?thesis
    by (simp add: withMode_wraps[OF assms])
qed

text \<open>
  One wrapped handler, four calls in a row with environments of different modes: allowed
  under \<open>rw\<close>, blocked under \<open>r-\<close>, allowed again under \<open>rw\<close>, and the configuration error
  under \<open>xx\<close>.
\<close>

theorem mode_read_per_call_witness:
  "\<exists>w. withMode spy ''rw'' 0 = (Inr w, 0) \<and>
     w ''a'' \<lparr>MODE = ''rw''\<rparr> ''ctx'' 0 = (Inr (''a'', \<lparr>MODE = ''rw''\<rparr>, ''ctx''), 1) \<and>
     w ''b'' \<lparr>MODE = ''r-''\<rparr> ''ctx'' 1 =
       (Inl (MaintenanceError
         ''API undergoing maintenance, check https://status.web3.storage for more info''), 1) \<and>
     w ''c'' \<lparr>MODE = ''rw''\<rparr> ''ctx'' 1 = (Inr (''c'', \<lparr>MODE = ''rw''\<rparr>, ''ctx''), 2) \<and>
     w ''d'' \<lparr>MODE = ''xx''\<rparr> ''ctx'' 2 =
       (Inl (HTTPError (''invalid maintenance mode, wanted one of --,r-,rw but got '' @
                        [CHR 0x22] @ ''xx'' @ [CHR 0x22]) 503), 2)"
proof -
  have "enabled ''rw'' \<lparr>MODE = ''rw''\<rparr> = Inr True"
    and "enabled ''rw'' \<lparr>MODE = ''r-''\<rparr> = Inr False"
    and "enabled ''rw'' \<lparr>MODE = ''xx''\<rparr> =
      Inl (HTTPError (''invalid maintenance mode, wanted one of --,r-,rw but got '' @
                      [CHR 0x22] @ ''xx'' @ [CHR 0x22]) 503)"
    by (simp_all add: enabled_canonical enabled_bad_mode)
  then show ?thesis
    using mode_read_per_call[of "''rw''" spy 0] by (auto simp: maintenanceHandler_throws)
qed

subsection \<open>Wrapping\<close>

text \<open>
  Claim C9. For every handler and every requirement other than \<open>--\<close>, wrapping returns a
  handler and throws nothing, and the state of the world after wrapping is the state
  before it, whatever the handler does when called: wrapping does not call it. The
  environment is an argument of the calls only, so wrapping has none to read. The
  returned handler has the type of the wrapped one: the same request, environment and
  context as arguments, the same answers.
\<close>

theorem withMode_returns_handler:
  fixes handler :: "('req, 'z, 'ctx, 's, 'resp) handler"
  assumes "mode \<noteq> ''--''"
  shows "\<exists>w :: ('req, 'z, 'ctx, 's, 'resp) handler. withMode handler mode s0 = (Inr w, s0)"
  by (simp add: withMode_wraps[OF assms])

theorem withMode_returns_handler_witness:
  "(\<exists>w. withMode spy ''r-'' 0 = (Inr w, 0)) \<and> (\<exists>w. withMode spy ''rw'' 0 = (Inr w, 0)) \<and>
   (\<exists>w. withMode spy ''xx'' 0 = (Inr w, 0))"
  using withMode_returns_handler[of "''r-''" spy 0] withMode_returns_handler[of "''rw''" spy 0]
    withMode_returns_handler[of "''xx''" spy 0]
  by simp

subsection \<open>A requirement that is not a mode\<close>

text \<open>
  Claim C10. For a requirement \<open>req\<close> outside \<open>--\<close>, \<open>r-\<close>, \<open>rw\<close>, wrapping succeeds, and
  every call of the returned handler under a runtime mode among the three throws the
  \<^verbatim>\<open>HTTPError\<close> of status 503 whose message names \<open>req\<close>, without calling the wrapped
  handler and without the maintenance error. The runtime mode is checked first: under a
  runtime mode outside the three, the message names the runtime mode instead.
\<close>

theorem noncanonical_requirement_throws:
  assumes "req \<notin> {''--'', ''r-'', ''rw''}"
  shows "\<exists>w. withMode handler req s0 = (Inr w, s0) \<and>
    (\<forall>request env ctx s. MODE env \<in> {''--'', ''r-'', ''rw''} \<longrightarrow>
       w request env ctx s =
         (Inl (HTTPError (''invalid maintenance mode, wanted one of --,r-,rw but got '' @
                          [CHR 0x22] @ req @ [CHR 0x22]) 503), s)) \<and>
    (\<forall>request env ctx s. MODE env \<notin> {''--'', ''r-'', ''rw''} \<longrightarrow>
       w request env ctx s =
         (Inl (HTTPError (''invalid maintenance mode, wanted one of --,r-,rw but got '' @
                          [CHR 0x22] @ MODE env @ [CHR 0x22]) 503), s)) \<and>
    status (HTTPError (''invalid maintenance mode, wanted one of --,r-,rw but got '' @
                       [CHR 0x22] @ req @ [CHR 0x22]) 503) = Some 503 \<and>
    \<not> is_MaintenanceError
        (HTTPError (''invalid maintenance mode, wanted one of --,r-,rw but got '' @
                    [CHR 0x22] @ req @ [CHR 0x22]) 503)"
proof -
  from assms have ne: "req \<noteq> ''--''" by auto
  have good: "enabled req env =
      Inl (HTTPError (''invalid maintenance mode, wanted one of --,r-,rw but got '' @
                      [CHR 0x22] @ req @ [CHR 0x22]) 503)"
    if "MODE env \<in> {''--'', ''r-'', ''rw''}" for env :: "'b env_scheme"
    using enabled_bad_requirement[OF that assms] .
  have bad: "enabled req env =
      Inl (HTTPError (''invalid maintenance mode, wanted one of --,r-,rw but got '' @
                      [CHR 0x22] @ MODE env @ [CHR 0x22]) 503)"
    if "MODE env \<notin> {''--'', ''r-'', ''rw''}" for env :: "'b env_scheme"
    using enabled_bad_mode[OF that] .
  have "\<forall>request (env :: 'b env_scheme) ctx s. MODE env \<in> {''--'', ''r-'', ''rw''} \<longrightarrow>
       (case enabled req env of
          Inl e \<Rightarrow> (Inl e, s)
        | Inr en \<Rightarrow> if en then handler request env ctx s else (maintenanceHandler (), s)) =
         (Inl (HTTPError (''invalid maintenance mode, wanted one of --,r-,rw but got '' @
                          [CHR 0x22] @ req @ [CHR 0x22]) 503), s)"
    using good by simp
  moreover have "\<forall>request (env :: 'b env_scheme) ctx s. MODE env \<notin> {''--'', ''r-'', ''rw''} \<longrightarrow>
       (case enabled req env of
          Inl e \<Rightarrow> (Inl e, s)
        | Inr en \<Rightarrow> if en then handler request env ctx s else (maintenanceHandler (), s)) =
         (Inl (HTTPError (''invalid maintenance mode, wanted one of --,r-,rw but got '' @
                          [CHR 0x22] @ MODE env @ [CHR 0x22]) 503), s)"
    using bad by simp
  ultimately show ?thesis
    by (simp add: withMode_wraps[OF ne])
qed

theorem noncanonical_requirement_throws_witness:
  "\<exists>w. withMode spy ''xx'' 0 = (Inr w, 0) \<and>
     w ''req'' \<lparr>MODE = ''rw''\<rparr> ''ctx'' 0 =
       (Inl (HTTPError (''invalid maintenance mode, wanted one of --,r-,rw but got '' @
                        [CHR 0x22] @ ''xx'' @ [CHR 0x22]) 503), 0) \<and>
     w ''req'' \<lparr>MODE = ''--''\<rparr> ''ctx'' 0 =
       (Inl (HTTPError (''invalid maintenance mode, wanted one of --,r-,rw but got '' @
                        [CHR 0x22] @ ''xx'' @ [CHR 0x22]) 503), 0) \<and>
     w ''req'' \<lparr>MODE = ''yy''\<rparr> ''ctx'' 0 =
       (Inl (HTTPError (''invalid maintenance mode, wanted one of --,r-,rw but got '' @
                        [CHR 0x22] @ ''yy'' @ [CHR 0x22]) 503), 0)"
  using noncanonical_requirement_throws[of "''xx''" spy 0] by auto

end
